theory Spec2Isabelle
  imports Complex_Main
begin

section \<open>Data model of \<^verbatim>\<open>generate_dxf.py\<close>\<close>

text \<open>
  Python floats are modelled as \<^typ>\<open>real\<close>: the claims are about the formulas, not
  about rounding. Every class is a record whose fields are the attributes that
  \<^verbatim>\<open>__init__\<close> assigns. The three records would share the field names
  \<^verbatim>\<open>width\<close> and \<^verbatim>\<open>thickness\<close>, so the fields of the two frames carry the prefix
  \<open>L_\<close> or \<open>U_\<close>; the rectangle keeps the plain names.
\<close>

record L_frame =
  L_width :: real
  L_horizontal_length :: real
  L_vertical_length :: real
  L_angle :: real
  L_thickness :: real

record U_frame =
  U_width :: real
  U_horizontal_length :: real
  U_vertical_length_left :: real
  U_vertical_length_right :: real
  U_angle_left :: real
  U_angle_right :: real
  U_thickness :: real

text \<open>
  \<^verbatim>\<open>Hole\<close> is a base class that can be instantiated by itself (width and height
  \<open>0.0\<close>); \<^verbatim>\<open>Circle(radius)\<close> and \<^verbatim>\<open>Slot(radius, length, angle)\<close> derive from it.
\<close>

datatype Hole = Hole | Circle real | Slot real real real

fun hole_height :: "Hole \<Rightarrow> real" where
  "hole_height Hole = 0"
| "hole_height (Circle radius) = radius * 2"
| "hole_height (Slot radius length' angle) = (length' * sin angle) + (2 * radius)"

fun hole_width :: "Hole \<Rightarrow> real" where
  "hole_width Hole = 0"
| "hole_width (Circle radius) = radius * 2"
| "hole_width (Slot radius length' angle) = (length' * cos angle) + (2 * radius)"

record Rectangle =
  width :: real
  height :: real
  thickness :: real
  offset_from_side :: real
  offset_from_bottom :: real
  holes :: "Hole list"
  holes_total_width :: real

text \<open>
  \<^verbatim>\<open>Rectangle.__init__(self, width, height, offset_from_side=0, offset_from_bottom=0,
  thickness=1)\<close>: the arguments in the order of the signature.
\<close>

definition Rectangle_init :: "real \<Rightarrow> real \<Rightarrow> real \<Rightarrow> real \<Rightarrow> real \<Rightarrow> Rectangle" where
  "Rectangle_init width' height' offset_from_side' offset_from_bottom' thickness' =
     \<lparr>width = width', height = height', thickness = thickness',
      offset_from_side = offset_from_side', offset_from_bottom = offset_from_bottom',
      holes = [], holes_total_width = 0\<rparr>"

section \<open>Frame flattening\<close>

text \<open>
  Both static methods end in \<^verbatim>\<open>Rectangle(frame.width, height, frame.thickness)\<close>: three
  positional arguments, so the third one binds the third parameter of the signature,
  \<^verbatim>\<open>offset_from_side\<close>, and \<^verbatim>\<open>offset_from_bottom\<close> and \<^verbatim>\<open>thickness\<close> take their
  defaults \<open>0\<close> and \<open>1\<close>.
\<close>

definition from_L_frame :: "L_frame \<Rightarrow> Rectangle" where
  "from_L_frame l_frame =
     (let height' = L_horizontal_length l_frame + L_vertical_length l_frame
                    - (if L_angle l_frame = 90 then 1 else 0.5)
      in Rectangle_init (L_width l_frame) height' (L_thickness l_frame) 0 1)"

definition from_U_frame :: "U_frame \<Rightarrow> Rectangle" where
  "from_U_frame u_frame =
     (let height' = U_horizontal_length u_frame + U_vertical_length_left u_frame
                    + U_vertical_length_right u_frame
                    - (if U_angle_left u_frame = 90 then 1 else 0.5)
                    - (if U_angle_right u_frame = 90 then 1 else 0.5)
      in Rectangle_init (U_width u_frame) height' (U_thickness u_frame) 0 1)"

section \<open>Attaching holes\<close>

datatype error = AssertionError string | ValueError string

text \<open>
  \<^verbatim>\<open>add_holes\<close> mutates the rectangle and may raise in the middle of the loop. The model
  returns the rectangle as the call leaves it together with the exception, if any.
\<close>

fun add_holes :: "Rectangle \<Rightarrow> Hole list \<Rightarrow> Rectangle \<times> error option" where
  "add_holes self [] = (self, None)"
| "add_holes self (hole # rest) =
     (let self1 = self\<lparr>holes := holes self @ [hole]\<rparr>;
          self2 = self1\<lparr>holes_total_width := holes_total_width self1 + hole_width hole\<rparr>
      in if \<not> (width self2 > (2 * offset_from_side self2) + holes_total_width self2)
         then (self2, Some (AssertionError ''holes don't fit into the rectangle''))
         else if \<not> (height self2 \<ge> offset_from_bottom self2 + hole_height hole)
         then (self2, Some (AssertionError ''hole too large''))
         else add_holes self2 rest)"

section \<open>Drawing a rectangle with its holes\<close>

text \<open>
  The drawing backend is the model space \<^verbatim>\<open>msp\<close> of the document: the list of the
  entities added so far. \<^verbatim>\<open>box(w, h)\<close> of the drawing library is the four corners
  \<open>(0,0), (w,0), (w,h), (0,h)\<close> and \<^verbatim>\<open>translate\<close> moves each of them by a vector.
\<close>

datatype entity =
  Add_lwpolyline "(real \<times> real) list" bool
| Add_circle "real \<times> real" real

definition box :: "real \<Rightarrow> real \<Rightarrow> (real \<times> real) list" where
  "box sx sy = [(0, 0), (sx, 0), (sx, sy), (0, sy)]"

definition translate :: "(real \<times> real) list \<Rightarrow> real \<times> real \<Rightarrow> (real \<times> real) list" where
  "translate vertices vec = map (\<lambda>(x, y). (x + fst vec, y + snd vec)) vertices"

definition hole_center_x :: "Rectangle \<Rightarrow> real \<Rightarrow> real \<Rightarrow> nat \<Rightarrow> Hole \<Rightarrow> real" where
  "hole_center_x rectangle start_from_x space_between_holes i hole =
     start_from_x
     + offset_from_side rectangle
     + (real i * hole_width hole + (hole_width hole / 2))
     + (real i * space_between_holes)"

definition hole_center_y :: "Rectangle \<Rightarrow> real \<Rightarrow> Hole \<Rightarrow> real" where
  "hole_center_y rectangle start_from_y hole =
     start_from_y + offset_from_bottom rectangle + (hole_height hole / 2)"

text \<open>The \<^verbatim>\<open>isinstance\<close> chain of the loop body: what is drawn for one hole.\<close>

fun draw_hole :: "real \<Rightarrow> real \<Rightarrow> Hole \<Rightarrow> entity list" where
  "draw_hole cx cy (Circle radius) = [Add_circle (cx, cy) radius]"
| "draw_hole cx cy (Slot radius length' angle) =
     (let left_x = cx - ((length' / 2) * cos angle);
          left_y = cy + ((length' / 2) * sin angle);
          right_x = cx + ((length' / 2) * cos angle);
          right_y = cy - ((length' / 2) * sin angle)
      in [Add_circle (left_x, left_y) radius, Add_circle (right_x, right_y) radius])"
| "draw_hole cx cy Hole = []"

text \<open>The loop \<^verbatim>\<open>for i, hole in enumerate(rectangle.holes)\<close>, from index \<open>i\<close> on.\<close>

fun place_holes ::
  "Rectangle \<Rightarrow> real \<Rightarrow> real \<Rightarrow> real \<Rightarrow> nat \<Rightarrow> Hole list \<Rightarrow> entity list \<Rightarrow> entity list" where
  "place_holes rectangle start_from_x start_from_y space_between_holes i [] msp = msp"
| "place_holes rectangle start_from_x start_from_y space_between_holes i (hole # rest) msp =
     place_holes rectangle start_from_x start_from_y space_between_holes (Suc i) rest
       (msp @ draw_hole (hole_center_x rectangle start_from_x space_between_holes i hole)
                        (hole_center_y rectangle start_from_y hole) hole)"

definition add_rectangle ::
  "entity list \<Rightarrow> Rectangle \<Rightarrow> real \<Rightarrow> real \<Rightarrow> entity list \<times> error option" where
  "add_rectangle msp rectangle start_from_x start_from_y =
     (let rect_coordinates =
            translate (box (width rectangle) (height rectangle)) (start_from_x, start_from_y);
          msp1 = msp @ [Add_lwpolyline rect_coordinates True];
          space_minus_offsets_from_side = width rectangle - (2 * offset_from_side rectangle);
          space_remaining = space_minus_offsets_from_side - holes_total_width rectangle
      in if length (holes rectangle) \<le> 1
         then (msp1, Some (ValueError ''Need to have at least two holes''))
         else
           (let space_between_holes = space_remaining / real (length (holes rectangle) - 1)
            in (place_holes rectangle start_from_x start_from_y space_between_holes 0
                  (holes rectangle) msp1, None)))"

section \<open>The older script \<^verbatim>\<open>main.py\<close>\<close>

text \<open>
  \<^verbatim>\<open>main.py\<close> has the same classes without the U-frame. It differs in two places: the
  bounding box of a slot, and the test of the bend in \<^verbatim>\<open>from_L_frame\<close>, which reads
  \<^verbatim>\<open>l_frame == 90\<close>. That compares the frame object with a number; \<^verbatim>\<open>L_frame\<close> defines
  no \<^verbatim>\<open>__eq__\<close>, so Python falls back to identity and the test is false for every frame.
\<close>

fun main_hole_height :: "Hole \<Rightarrow> real" where
  "main_hole_height Hole = 0"
| "main_hole_height (Circle radius) = radius * 2"
| "main_hole_height (Slot radius length' angle) = (length' + (2 * radius)) * sin angle"

fun main_hole_width :: "Hole \<Rightarrow> real" where
  "main_hole_width Hole = 0"
| "main_hole_width (Circle radius) = radius * 2"
| "main_hole_width (Slot radius length' angle) = (length' + (2 * radius)) * cos angle"

definition L_frame_eq_number :: "L_frame \<Rightarrow> real \<Rightarrow> bool" where
  "L_frame_eq_number l_frame x = False"

definition main_from_L_frame :: "L_frame \<Rightarrow> Rectangle" where
  "main_from_L_frame l_frame =
     (let height' = L_horizontal_length l_frame + L_vertical_length l_frame
                    - (if L_frame_eq_number l_frame 90 then 1 else 0.5)
      in Rectangle_init (L_width l_frame) height' (L_thickness l_frame) 0 1)"

section \<open>The centre of a hole as the specification states it\<close>

text \<open>
  The specification gives the horizontal centre of hole \<open>i\<close> as the start, the side
  offset, the widths of all holes before it, half its own width, and \<open>i\<close> gaps, where
  the gap is the free span divided by the number of holes minus one. This definition
  follows those words, for comparison with \<^const>\<open>hole_center_x\<close> of the code.
\<close>

definition spec_hole_center_x :: "Rectangle \<Rightarrow> real \<Rightarrow> nat \<Rightarrow> real" where
  "spec_hole_center_x rectangle start_x i =
     start_x + offset_from_side rectangle
     + sum_list (map hole_width (take i (holes rectangle)))
     + hole_width (holes rectangle ! i) / 2
     + real i * ((width rectangle - 2 * offset_from_side rectangle - holes_total_width rectangle)
                 / real (length (holes rectangle) - 1))"

section \<open>Supporting lemmas\<close>

subsection \<open>Flattening\<close>

lemma from_L_frame_height:
  "height (from_L_frame f) =
     L_horizontal_length f + L_vertical_length f - (if L_angle f = 90 then 1 else 0.5)"
  by (simp add: from_L_frame_def Rectangle_init_def)

lemma main_from_L_frame_height:
  "height (main_from_L_frame f) = L_horizontal_length f + L_vertical_length f - 0.5"
  by (simp add: main_from_L_frame_def L_frame_eq_number_def Rectangle_init_def)

lemma from_L_frame_fields:
  "width (from_L_frame f) = L_width f \<and> thickness (from_L_frame f) = 1
   \<and> offset_from_side (from_L_frame f) = L_thickness f
   \<and> offset_from_bottom (from_L_frame f) = 0
   \<and> holes (from_L_frame f) = [] \<and> holes_total_width (from_L_frame f) = 0"
  by (simp add: from_L_frame_def Rectangle_init_def)

lemma from_U_frame_fields:
  "width (from_U_frame u) = U_width u \<and> thickness (from_U_frame u) = 1
   \<and> offset_from_side (from_U_frame u) = U_thickness u
   \<and> offset_from_bottom (from_U_frame u) = 0
   \<and> holes (from_U_frame u) = [] \<and> holes_total_width (from_U_frame u) = 0"
  by (simp add: from_U_frame_def Rectangle_init_def)

subsection \<open>Slots whose angle lies in the first quadrant\<close>

lemma slot_box_first_quadrant:
  "0 \<le> cos a \<Longrightarrow> 0 \<le> sin a \<Longrightarrow>
     hole_width (Slot r l a) = l * \<bar>cos a\<bar> + 2 * r
   \<and> hole_height (Slot r l a) = l * \<bar>sin a\<bar> + 2 * r"
  by simp

subsection \<open>The loop of \<^verbatim>\<open>add_holes\<close>\<close>

lemma add_holes_ok:
  "add_holes r hs = (r', None) \<Longrightarrow>
     r' = r\<lparr>holes := holes r @ hs,
            holes_total_width := holes_total_width r + sum_list (map hole_width hs)\<rparr>"
proof (induction hs arbitrary: r)
  case Nil
  then show ?case by simp
next
  case (Cons h hs)
  let ?r2 = "r\<lparr>holes := holes r @ [h], holes_total_width := holes_total_width r + hole_width h\<rparr>"
  from Cons.prems have "add_holes ?r2 hs = (r', None)"
    by (simp add: Let_def split: if_splits)
  from Cons.IH [OF this] show ?case by (simp add: add.assoc)
qed

lemma add_holes_append:
  "add_holes r (xs @ ys) =
     (case add_holes r xs of (r1, None) \<Rightarrow> add_holes r1 ys | (r1, Some e) \<Rightarrow> (r1, Some e))"
  by (induction xs arbitrary: r) (simp_all add: Let_def)

lemma add_holes_checks:
  "add_holes r hs = (r', None) \<Longrightarrow> k < length hs \<Longrightarrow>
     width r > 2 * offset_from_side r
                 + (holes_total_width r + sum_list (map hole_width (take (Suc k) hs)))
     \<and> height r \<ge> offset_from_bottom r + hole_height (hs ! k)"
proof (induction hs arbitrary: r k)
  case Nil
  then show ?case by simp
next
  case (Cons h hs)
  let ?r2 = "r\<lparr>holes := holes r @ [h], holes_total_width := holes_total_width r + hole_width h\<rparr>"
  from Cons.prems(1) have ok: "width r > 2 * offset_from_side r + (holes_total_width r + hole_width h)"
    "height r \<ge> offset_from_bottom r + hole_height h" and rest: "add_holes ?r2 hs = (r', None)"
    by (simp_all add: Let_def split: if_splits)
  show ?case
  proof (cases k)
    case 0
    with ok show ?thesis by simp
  next
    case (Suc j)
    with Cons.prems(2) have "j < length hs" by simp
    from Cons.IH [OF rest this] Suc show ?thesis by (simp add: add.assoc)
  qed
qed

lemma add_holes_all_fit:
  "(\<And>k. k < length hs \<Longrightarrow>
      width r > 2 * offset_from_side r
                 + (holes_total_width r + sum_list (map hole_width (take (Suc k) hs)))
      \<and> height r \<ge> offset_from_bottom r + hole_height (hs ! k)) \<Longrightarrow>
   snd (add_holes r hs) = None"
proof (induction hs arbitrary: r)
  case Nil
  then show ?case by simp
next
  case (Cons h hs)
  let ?r2 = "r\<lparr>holes := holes r @ [h], holes_total_width := holes_total_width r + hole_width h\<rparr>"
  from Cons.prems [of 0] have ok: "width r > 2 * offset_from_side r + (holes_total_width r + hole_width h)"
    "height r \<ge> offset_from_bottom r + hole_height h" by simp_all
  have "snd (add_holes ?r2 hs) = None"
  proof (rule Cons.IH)
    fix k assume "k < length hs"
    then have "Suc k < length (h # hs)" by simp
    from Cons.prems [OF this] show "width ?r2 > 2 * offset_from_side ?r2
                 + (holes_total_width ?r2 + sum_list (map hole_width (take (Suc k) hs)))
      \<and> height ?r2 \<ge> offset_from_bottom ?r2 + hole_height (hs ! k)"
      by (simp add: add.assoc)
  qed
  with ok show ?case by (simp add: Let_def)
qed

lemma add_holes_raise:
  "add_holes r hs = (r', Some e) \<Longrightarrow>
     \<exists>i<length hs.
        holes r' = holes r @ take (Suc i) hs
      \<and> holes_total_width r' = holes_total_width r + sum_list (map hole_width (take (Suc i) hs))
      \<and> width r' = width r \<and> height r' = height r
      \<and> offset_from_side r' = offset_from_side r \<and> offset_from_bottom r' = offset_from_bottom r
      \<and> (\<not> width r' > 2 * offset_from_side r' + holes_total_width r'
          \<or> \<not> height r' \<ge> offset_from_bottom r' + hole_height (hs ! i))"
proof (induction hs arbitrary: r)
  case Nil
  then show ?case by simp
next
  case (Cons h hs)
  let ?r2 = "r\<lparr>holes := holes r @ [h], holes_total_width := holes_total_width r + hole_width h\<rparr>"
  show ?case
  proof (cases "width r > 2 * offset_from_side r + (holes_total_width r + hole_width h)
                \<and> height r \<ge> offset_from_bottom r + hole_height h")
    case True
    with Cons.prems have "add_holes ?r2 hs = (r', Some e)" by (simp add: Let_def)
    from Cons.IH [OF this] obtain i where i: "i < length hs"
      and hl: "holes r' = holes ?r2 @ take (Suc i) hs"
      and tw: "holes_total_width r' =
                 holes_total_width ?r2 + sum_list (map hole_width (take (Suc i) hs))"
      and fr: "width r' = width ?r2" "height r' = height ?r2"
              "offset_from_side r' = offset_from_side ?r2"
              "offset_from_bottom r' = offset_from_bottom ?r2"
      and bad: "\<not> width r' > 2 * offset_from_side r' + holes_total_width r'
                \<or> \<not> height r' \<ge> offset_from_bottom r' + hole_height (hs ! i)"
      by blast
    from i have "Suc i < length (h # hs)" by simp
    moreover from hl have "holes r' = holes r @ take (Suc (Suc i)) (h # hs)" by simp
    moreover from tw have "holes_total_width r' =
        holes_total_width r + sum_list (map hole_width (take (Suc (Suc i)) (h # hs)))"
      by (simp add: add.assoc)
    moreover from fr have "width r' = width r" "height r' = height r"
        "offset_from_side r' = offset_from_side r" "offset_from_bottom r' = offset_from_bottom r"
      by simp_all
    moreover from bad have "\<not> width r' > 2 * offset_from_side r' + holes_total_width r'
          \<or> \<not> height r' \<ge> offset_from_bottom r' + hole_height ((h # hs) ! Suc i)"
      by simp
    ultimately show ?thesis by blast
  next
    case False
    with Cons.prems have "r' = ?r2" by (auto simp add: Let_def split: if_splits)
    with False have "0 < length (h # hs) \<and> holes r' = holes r @ take (Suc 0) (h # hs)
      \<and> holes_total_width r' = holes_total_width r + sum_list (map hole_width (take (Suc 0) (h # hs)))
      \<and> width r' = width r \<and> height r' = height r
      \<and> offset_from_side r' = offset_from_side r \<and> offset_from_bottom r' = offset_from_bottom r
      \<and> (\<not> width r' > 2 * offset_from_side r' + holes_total_width r'
          \<or> \<not> height r' \<ge> offset_from_bottom r' + hole_height ((h # hs) ! 0))"
      by auto
    then show ?thesis by blast
  qed
qed

subsection \<open>The loop of \<^verbatim>\<open>add_rectangle\<close>\<close>

lemma place_holes_concat:
  "place_holes R sx sy g i hs msp =
     msp @ concat (map (\<lambda>(k, h). draw_hole (hole_center_x R sx g k h) (hole_center_y R sy h) h)
                       (enumerate i hs))"
  by (induction hs arbitrary: i msp) simp_all

lemma sum_list_same_width:
  "\<forall>h\<in>set hs. hole_width h = w \<Longrightarrow> sum_list (map hole_width hs) = real (length hs) * w"
  by (induction hs) (simp_all add: algebra_simps)

lemma hole_center_x_uniform:
  assumes "\<forall>h\<in>set (holes R). hole_width h = w" and "i < length (holes R)"
  shows "hole_center_x R sx
           ((width R - 2 * offset_from_side R - holes_total_width R) / real (length (holes R) - 1))
           i (holes R ! i)
         = spec_hole_center_x R sx i"
proof -
  from assms have "\<forall>h\<in>set (take i (holes R)). hole_width h = w"
    by (auto dest: in_set_takeD)
  from sum_list_same_width [OF this] assms(2)
  have "sum_list (map hole_width (take i (holes R))) = real i * w" by simp
  moreover from assms have "hole_width (holes R ! i) = w" by simp
  ultimately show ?thesis by (simp add: hole_center_x_def spec_hole_center_x_def)
qed

section \<open>Flattening a frame\<close>

text \<open>
  Claim C2. For every L-frame the flattened height is
  \<open>horizontal_length + vertical_length - bend_allowance\<close>, with a bend allowance of \<open>1\<close>
  when the angle is \<open>90\<close> and \<open>0.5\<close> otherwise. \<^verbatim>\<open>generate_dxf.py\<close> does so
  (\<open>from_L_frame_height\<close>). \<^verbatim>\<open>main.py\<close> tests \<^verbatim>\<open>l_frame == 90\<close> instead of the angle,
  so it subtracts \<open>0.5\<close> from every frame: the frame of its own demonstration, with legs
  \<open>50\<close> and \<open>10\<close> at \<open>90\<close> degrees, is flattened to \<open>59.5\<close> where the rule gives \<open>59\<close>.
\<close>

theorem main_from_L_frame_right_angle:
  "height (main_from_L_frame \<lparr>L_width = 200, L_horizontal_length = 50, L_vertical_length = 10,
             L_angle = 90, L_thickness = 1\<rparr>) = 59.5
   \<and> height (from_L_frame \<lparr>L_width = 200, L_horizontal_length = 50, L_vertical_length = 10,
             L_angle = 90, L_thickness = 1\<rparr>) = 59"
  by (simp add: main_from_L_frame_def L_frame_eq_number_def from_L_frame_def Rectangle_init_def)

text \<open>
  Claim C3. The flattened rectangle should have the frame's width, the frame's thickness,
  both offsets zero and no holes. The frame's thickness is passed as the third positional
  argument of \<^verbatim>\<open>Rectangle\<close>, which is \<^verbatim>\<open>offset_from_side\<close>: for a frame of thickness \<open>2\<close>
  the rectangle has thickness \<open>1\<close> and a side offset of \<open>2\<close>, in all three flattening
  functions. The width, the bottom offset and the empty hole list are as claimed
  (\<open>from_L_frame_fields\<close>, \<open>from_U_frame_fields\<close>).
\<close>

theorem flatten_thickness_becomes_side_offset:
  "thickness (from_L_frame \<lparr>L_width = 200, L_horizontal_length = 50, L_vertical_length = 10,
      L_angle = 90, L_thickness = 2\<rparr>) = 1
   \<and> offset_from_side (from_L_frame \<lparr>L_width = 200, L_horizontal_length = 50,
      L_vertical_length = 10, L_angle = 90, L_thickness = 2\<rparr>) = 2
   \<and> thickness (from_U_frame \<lparr>U_width = 200, U_horizontal_length = 50,
      U_vertical_length_left = 10, U_vertical_length_right = 10, U_angle_left = 90,
      U_angle_right = 45, U_thickness = 2\<rparr>) = 1
   \<and> offset_from_side (from_U_frame \<lparr>U_width = 200, U_horizontal_length = 50,
      U_vertical_length_left = 10, U_vertical_length_right = 10, U_angle_left = 90,
      U_angle_right = 45, U_thickness = 2\<rparr>) = 2
   \<and> thickness (main_from_L_frame \<lparr>L_width = 200, L_horizontal_length = 50,
      L_vertical_length = 10, L_angle = 90, L_thickness = 2\<rparr>) = 1
   \<and> offset_from_side (main_from_L_frame \<lparr>L_width = 200, L_horizontal_length = 50,
      L_vertical_length = 10, L_angle = 90, L_thickness = 2\<rparr>) = 2"
  by (simp add: from_L_frame_def from_U_frame_def main_from_L_frame_def Rectangle_init_def)

text \<open>
  Claim C7. The rectangle flattened from a U-frame has the height
  \<open>horizontal_length + vertical_length_left + vertical_length_right\<close> minus one bend
  allowance per side, each of them \<open>1\<close> when that side's angle is \<open>90\<close> and \<open>0.5\<close>
  otherwise, independently of the other side. With lengths \<open>50\<close>, \<open>10\<close>, \<open>10\<close> and
  angles \<open>90\<close> and \<open>45\<close> the height is \<open>68.5\<close>.
\<close>

theorem from_U_frame_height:
  "height (from_U_frame u) =
     U_horizontal_length u + U_vertical_length_left u + U_vertical_length_right u
     - (if U_angle_left u = 90 then 1 else 0.5)
     - (if U_angle_right u = 90 then 1 else 0.5)
   \<and> height (from_U_frame \<lparr>U_width = w, U_horizontal_length = 50,
        U_vertical_length_left = 10, U_vertical_length_right = 10,
        U_angle_left = 90, U_angle_right = 45, U_thickness = t\<rparr>) = 68.5"
  by (simp add: from_U_frame_def Rectangle_init_def)

section \<open>The bounding box of a slot\<close>

text \<open>
  Claim C6. The width and height of a slot should be those of the box around its two end
  circles: \<open>length * |cos angle| + 2 * radius\<close> and \<open>length * |sin angle| + 2 * radius\<close>.
  \<^verbatim>\<open>generate_dxf.py\<close> leaves out the absolute value (it agrees in the first quadrant,
  \<open>slot_box_first_quadrant\<close>): a slot of radius \<open>1\<close> and length \<open>10\<close> turned by \<open>pi\<close>,
  which covers the same box as one turned by \<open>0\<close>, gets the width \<open>-8\<close> instead of \<open>12\<close>.
  \<^verbatim>\<open>main.py\<close> multiplies the radius by the sine and cosine too, so a level slot of radius
  \<open>5\<close> gets the height \<open>0\<close> instead of \<open>10\<close>.
\<close>

theorem slot_bounding_box_wrong:
  "hole_width (Slot 1 10 pi) = - 8 \<and> 10 * \<bar>cos pi\<bar> + 2 * 1 = (12::real)
   \<and> main_hole_height (Slot 5 10 0) = 0 \<and> 10 * \<bar>sin 0\<bar> + 2 * 5 = (10::real)"
  by simp

section \<open>Attaching holes\<close>

text \<open>
  Claim C4. \<^verbatim>\<open>add_holes\<close> appends the holes in the given order, adds each width to
  \<^verbatim>\<open>holes_total_width\<close> and checks both conditions after every append. It returns without
  an exception exactly when every prefix of the list fits horizontally and every hole fits
  vertically. When the holes \<open>pre\<close> have been attached and the next hole \<open>h\<close> breaks the
  horizontal condition (or, fitting horizontally, the vertical one), the assertion fails
  there: the hole list ends with \<open>h\<close>, whatever holes \<open>post\<close> follow it in the argument.
\<close>

theorem add_holes_rechecks_after_every_append:
  "(add_holes r hs = (r', None) \<longrightarrow>
      holes r' = holes r @ hs
    \<and> holes_total_width r' = holes_total_width r + sum_list (map hole_width hs)
    \<and> (\<forall>k<length hs.
          width r > 2 * offset_from_side r
                    + (holes_total_width r + sum_list (map hole_width (take (Suc k) hs)))
        \<and> height r \<ge> offset_from_bottom r + hole_height (hs ! k)))
 \<and> ((\<forall>k<length hs.
          width r > 2 * offset_from_side r
                    + (holes_total_width r + sum_list (map hole_width (take (Suc k) hs)))
        \<and> height r \<ge> offset_from_bottom r + hole_height (hs ! k))
      \<longrightarrow> snd (add_holes r hs) = None)
 \<and> (add_holes r pre = (r1, None)
      \<and> (holes_total_width r1 + hole_width h) + 2 * offset_from_side r1 \<ge> width r1 \<longrightarrow>
        snd (add_holes r (pre @ h # post))
          = Some (AssertionError ''holes don't fit into the rectangle'')
      \<and> holes (fst (add_holes r (pre @ h # post))) = holes r @ pre @ [h])
 \<and> (add_holes r pre = (r1, None)
      \<and> (holes_total_width r1 + hole_width h) + 2 * offset_from_side r1 < width r1
      \<and> height r1 < offset_from_bottom r1 + hole_height h \<longrightarrow>
        snd (add_holes r (pre @ h # post)) = Some (AssertionError ''hole too large'')
      \<and> holes (fst (add_holes r (pre @ h # post))) = holes r @ pre @ [h])"
proof (intro conjI impI)
  assume ok: "add_holes r hs = (r', None)"
  from add_holes_ok [OF ok] show "holes r' = holes r @ hs" by simp
  from add_holes_ok [OF ok]
  show "holes_total_width r' = holes_total_width r + sum_list (map hole_width hs)" by simp
  from add_holes_checks [OF ok]
  show "\<forall>k<length hs.
          width r > 2 * offset_from_side r
                    + (holes_total_width r + sum_list (map hole_width (take (Suc k) hs)))
        \<and> height r \<ge> offset_from_bottom r + hole_height (hs ! k)" by blast
next
  assume "\<forall>k<length hs.
          width r > 2 * offset_from_side r
                    + (holes_total_width r + sum_list (map hole_width (take (Suc k) hs)))
        \<and> height r \<ge> offset_from_bottom r + hole_height (hs ! k)"
  then show "snd (add_holes r hs) = None" by (intro add_holes_all_fit) blast
next
  assume a: "add_holes r pre = (r1, None)
      \<and> (holes_total_width r1 + hole_width h) + 2 * offset_from_side r1 \<ge> width r1"
  then have r1: "holes r1 = holes r @ pre" using add_holes_ok [of r pre r1] by simp
  from a show "snd (add_holes r (pre @ h # post))
          = Some (AssertionError ''holes don't fit into the rectangle'')"
    by (simp add: add_holes_append Let_def)
  from a r1 show "holes (fst (add_holes r (pre @ h # post))) = holes r @ pre @ [h]"
    by (simp add: add_holes_append Let_def)
next
  assume a: "add_holes r pre = (r1, None)
      \<and> (holes_total_width r1 + hole_width h) + 2 * offset_from_side r1 < width r1
      \<and> height r1 < offset_from_bottom r1 + hole_height h"
  then have r1: "holes r1 = holes r @ pre" using add_holes_ok [of r pre r1] by simp
  from a show "snd (add_holes r (pre @ h # post)) = Some (AssertionError ''hole too large'')"
    by (simp add: add_holes_append Let_def)
  from a r1 show "holes (fst (add_holes r (pre @ h # post))) = holes r @ pre @ [h]"
    by (simp add: add_holes_append Let_def)
qed

theorem add_holes_rechecks_after_every_append_witness:
  "add_holes (Rectangle_init 30 15 0 0 1) [Circle 5, Circle 5]
     = ((Rectangle_init 30 15 0 0 1)\<lparr>holes := [Circle 5, Circle 5], holes_total_width := 20\<rparr>, None)
   \<and> width (Rectangle_init 30 15 0 0 1)
         > 2 * offset_from_side (Rectangle_init 30 15 0 0 1)
           + (holes_total_width (Rectangle_init 30 15 0 0 1)
              + sum_list (map hole_width (take (Suc 1) [Circle 5, Circle 5])))
   \<and> height (Rectangle_init 30 15 0 0 1)
         \<ge> offset_from_bottom (Rectangle_init 30 15 0 0 1) + hole_height ([Circle 5, Circle 5] ! 1)
   \<and> add_holes (Rectangle_init 30 15 0 0 1) [Circle 5]
     = ((Rectangle_init 30 15 0 0 1)\<lparr>holes := [Circle 5], holes_total_width := 10\<rparr>, None)
   \<and> snd (add_holes (Rectangle_init 30 15 0 0 1) ([Circle 5] @ Circle 10 # [Circle 1]))
       = Some (AssertionError ''holes don't fit into the rectangle'')
   \<and> holes (fst (add_holes (Rectangle_init 30 15 0 0 1) ([Circle 5] @ Circle 10 # [Circle 1])))
       = holes (Rectangle_init 30 15 0 0 1) @ [Circle 5] @ [Circle 10]
   \<and> snd (add_holes (Rectangle_init 30 15 0 0 1) ([Circle 5] @ Circle 8 # [Circle 1]))
       = Some (AssertionError ''hole too large'')
   \<and> holes (fst (add_holes (Rectangle_init 30 15 0 0 1) ([Circle 5] @ Circle 8 # [Circle 1])))
       = holes (Rectangle_init 30 15 0 0 1) @ [Circle 5] @ [Circle 8]"
proof -
  let ?r = "Rectangle_init 30 15 0 0 1"
  let ?r1 = "?r\<lparr>holes := [Circle 5], holes_total_width := 10\<rparr>"
  let ?r2 = "?r\<lparr>holes := [Circle 5, Circle 5], holes_total_width := 20\<rparr>"
  have two: "add_holes ?r [Circle 5, Circle 5] = (?r2, None)"
    by (simp add: Rectangle_init_def Let_def)
  have one: "add_holes ?r [Circle 5] = (?r1, None)"
    by (simp add: Rectangle_init_def Let_def)
  have wide: "(holes_total_width ?r1 + hole_width (Circle 10)) + 2 * offset_from_side ?r1
                \<ge> width ?r1"
    by (simp add: Rectangle_init_def)
  have tall: "(holes_total_width ?r1 + hole_width (Circle 8)) + 2 * offset_from_side ?r1
                < width ?r1
              \<and> height ?r1 < offset_from_bottom ?r1 + hole_height (Circle 8)"
    by (simp add: Rectangle_init_def)
  note w = add_holes_rechecks_after_every_append
             [of ?r "[Circle 5, Circle 5]" ?r2 "[Circle 5]" ?r1 "Circle 10" "[Circle 1]"]
  note t = add_holes_rechecks_after_every_append
             [of ?r "[Circle 5, Circle 5]" ?r2 "[Circle 5]" ?r1 "Circle 8" "[Circle 1]"]
  from w two have "\<forall>k<length [Circle 5, Circle 5].
          width ?r > 2 * offset_from_side ?r
              + (holes_total_width ?r
                 + sum_list (map hole_width (take (Suc k) [Circle 5, Circle 5])))
        \<and> height ?r \<ge> offset_from_bottom ?r + hole_height ([Circle 5, Circle 5] ! k)"
    by blast
  moreover have "1 < length [Circle 5, Circle 5]" by simp
  ultimately have checks:
    "width ?r > 2 * offset_from_side ?r
        + (holes_total_width ?r + sum_list (map hole_width (take (Suc 1) [Circle 5, Circle 5])))
     \<and> height ?r \<ge> offset_from_bottom ?r + hole_height ([Circle 5, Circle 5] ! 1)"
    by blast
  from w one wide
  have a: "snd (add_holes ?r ([Circle 5] @ Circle 10 # [Circle 1]))
             = Some (AssertionError ''holes don't fit into the rectangle'')
           \<and> holes (fst (add_holes ?r ([Circle 5] @ Circle 10 # [Circle 1])))
             = holes ?r @ [Circle 5] @ [Circle 10]"
    by blast
  from t one tall
  have b: "snd (add_holes ?r ([Circle 5] @ Circle 8 # [Circle 1]))
             = Some (AssertionError ''hole too large'')
           \<and> holes (fst (add_holes ?r ([Circle 5] @ Circle 8 # [Circle 1])))
             = holes ?r @ [Circle 5] @ [Circle 8]"
    by blast
  from two checks one a b show ?thesis by blast
qed

text \<open>
  Claim C9. \<^verbatim>\<open>add_holes\<close> is not atomic. Whenever it raises, some hole \<open>i\<close> of the
  argument triggered the failure; the rectangle then holds the holes \<open>0\<close> to \<open>i\<close> of the
  argument after its former ones, \<^verbatim>\<open>holes_total_width\<close> includes the width of hole \<open>i\<close>,
  and the rectangle violates the fit invariant.
\<close>

theorem add_holes_not_atomic:
  "add_holes r hs = (r', Some e) \<Longrightarrow>
     \<exists>i<length hs.
        (\<not> width r > 2 * offset_from_side r
                       + (holes_total_width r + sum_list (map hole_width (take (Suc i) hs)))
         \<or> \<not> height r \<ge> offset_from_bottom r + hole_height (hs ! i))
      \<and> holes r' = holes r @ take (Suc i) hs
      \<and> holes r' \<noteq> holes r
      \<and> holes_total_width r' = holes_total_width r + sum_list (map hole_width (take (Suc i) hs))
      \<and> \<not> (width r' > 2 * offset_from_side r' + holes_total_width r'
            \<and> (\<forall>x\<in>set (holes r'). height r' \<ge> offset_from_bottom r' + hole_height x))"
proof -
  assume "add_holes r hs = (r', Some e)"
  from add_holes_raise [OF this] obtain i where i: "i < length hs"
    and hl: "holes r' = holes r @ take (Suc i) hs"
    and tw: "holes_total_width r' =
               holes_total_width r + sum_list (map hole_width (take (Suc i) hs))"
    and fr: "width r' = width r" "height r' = height r"
            "offset_from_side r' = offset_from_side r"
            "offset_from_bottom r' = offset_from_bottom r"
    and bad: "\<not> width r' > 2 * offset_from_side r' + holes_total_width r'
              \<or> \<not> height r' \<ge> offset_from_bottom r' + hole_height (hs ! i)"
    by blast
  from bad tw fr
  have trigger: "\<not> width r > 2 * offset_from_side r
                       + (holes_total_width r + sum_list (map hole_width (take (Suc i) hs)))
                 \<or> \<not> height r \<ge> offset_from_bottom r + hole_height (hs ! i)"
    by simp
  from i have "hs ! i \<in> set (take (Suc i) hs)"
    by (simp add: take_Suc_conv_app_nth)
  with hl have mem: "hs ! i \<in> set (holes r')" by simp
  from i hl have changed: "holes r' \<noteq> holes r"
    by (simp add: take_Suc_conv_app_nth)
  from mem bad have "\<not> (width r' > 2 * offset_from_side r' + holes_total_width r'
            \<and> (\<forall>x\<in>set (holes r'). height r' \<ge> offset_from_bottom r' + hole_height x))"
    by blast
  with i trigger hl changed tw show ?thesis by blast
qed

theorem add_holes_not_atomic_witness:
  "add_holes (Rectangle_init 30 15 0 0 1) [Circle 5, Circle 10, Circle 1]
     = ((Rectangle_init 30 15 0 0 1)\<lparr>holes := [Circle 5, Circle 10], holes_total_width := 30\<rparr>,
        Some (AssertionError ''holes don't fit into the rectangle''))
   \<and> (\<exists>i<length [Circle 5, Circle 10, Circle 1].
        holes ((Rectangle_init 30 15 0 0 1)
                 \<lparr>holes := [Circle 5, Circle 10], holes_total_width := 30\<rparr>)
          = holes (Rectangle_init 30 15 0 0 1) @ take (Suc i) [Circle 5, Circle 10, Circle 1])"
proof -
  let ?r = "Rectangle_init 30 15 0 0 1"
  let ?r' = "?r\<lparr>holes := [Circle 5, Circle 10], holes_total_width := 30\<rparr>"
  have run: "add_holes ?r [Circle 5, Circle 10, Circle 1]
               = (?r', Some (AssertionError ''holes don't fit into the rectangle''))"
    by (simp add: Rectangle_init_def Let_def)
  from add_holes_not_atomic [OF run] run show ?thesis by blast
qed

section \<open>Drawing\<close>

text \<open>
  Claim C5. \<^verbatim>\<open>add_rectangle\<close> raises \<^verbatim>\<open>ValueError\<close> for every rectangle with no hole or
  one hole, and raises nothing for a rectangle with two or more holes.
\<close>

theorem add_rectangle_needs_two_holes:
  "(length (holes r) \<le> 1 \<longrightarrow>
      snd (add_rectangle msp r x y) = Some (ValueError ''Need to have at least two holes''))
   \<and> (2 \<le> length (holes r) \<longrightarrow> snd (add_rectangle msp r x y) = None)"
  by (simp add: add_rectangle_def Let_def)

theorem add_rectangle_needs_two_holes_witness:
  "length (holes (Rectangle_init 150 50 40 5 1)) \<le> 1
   \<and> snd (add_rectangle [] (Rectangle_init 150 50 40 5 1) 0 70)
       = Some (ValueError ''Need to have at least two holes'')
   \<and> length (holes ((Rectangle_init 150 50 40 5 1)
                       \<lparr>holes := [Circle 5], holes_total_width := 10\<rparr>)) \<le> 1
   \<and> snd (add_rectangle [] ((Rectangle_init 150 50 40 5 1)
                       \<lparr>holes := [Circle 5], holes_total_width := 10\<rparr>) 0 70)
       = Some (ValueError ''Need to have at least two holes'')
   \<and> 2 \<le> length (holes ((Rectangle_init 150 50 40 5 1)
                       \<lparr>holes := [Circle 5, Circle 5], holes_total_width := 20\<rparr>))
   \<and> snd (add_rectangle [] ((Rectangle_init 150 50 40 5 1)
                       \<lparr>holes := [Circle 5, Circle 5], holes_total_width := 20\<rparr>) 0 70) = None"
  using add_rectangle_needs_two_holes [of "Rectangle_init 150 50 40 5 1" "[]" 0 70]
        add_rectangle_needs_two_holes
          [of "(Rectangle_init 150 50 40 5 1)\<lparr>holes := [Circle 5], holes_total_width := 10\<rparr>"
              "[]" 0 70]
        add_rectangle_needs_two_holes
          [of "(Rectangle_init 150 50 40 5 1)
                 \<lparr>holes := [Circle 5, Circle 5], holes_total_width := 20\<rparr>" "[]" 0 70]
  by (simp add: Rectangle_init_def)

text \<open>
  Claim C10. \<^verbatim>\<open>add_rectangle\<close> adds the outline of the rectangle to the model space
  before it counts the holes: when it raises for a rectangle with fewer than two holes,
  the model space already holds the outline.
\<close>

theorem add_rectangle_outline_before_check:
  "length (holes r) \<le> 1 \<Longrightarrow>
     add_rectangle msp r x y =
       (msp @ [Add_lwpolyline [(x, y), (width r + x, y), (width r + x, height r + y),
                               (x, height r + y)] True],
        Some (ValueError ''Need to have at least two holes''))"
  by (simp add: add_rectangle_def Let_def box_def translate_def)

theorem add_rectangle_outline_before_check_witness:
  "length (holes (Rectangle_init 150 50 40 5 1)) \<le> 1
   \<and> add_rectangle [] (Rectangle_init 150 50 40 5 1) 0 70 =
       ([Add_lwpolyline [(0, 70), (150, 70), (150, 120), (0, 120)] True],
        Some (ValueError ''Need to have at least two holes''))"
  using add_rectangle_outline_before_check [of "Rectangle_init 150 50 40 5 1" "[]" 0 70]
  by (simp add: Rectangle_init_def)

text \<open>
  Claim C8. For a rectangle with at least two holes \<^verbatim>\<open>add_rectangle\<close> adds the outline and
  then, hole by hole in order, what \<^verbatim>\<open>draw_hole\<close> gives at the centre computed for that
  hole. For a slot that is exactly two circles of the slot's radius and nothing else: the
  left one at the centre moved by \<open>-(length/2) cos angle\<close> and \<open>+(length/2) sin angle\<close>, the
  right one at the centre moved by \<open>+(length/2) cos angle\<close> and \<open>-(length/2) sin angle\<close>.
  The midpoint of the two is the computed centre.
\<close>

theorem slot_drawn_as_two_end_circles:
  "2 \<le> length (holes R) \<Longrightarrow>
   (let gap = (width R - 2 * offset_from_side R - holes_total_width R)
              / real (length (holes R) - 1);
        drawn = (\<lambda>(i, hole). draw_hole (hole_center_x R sx gap i hole)
                                        (hole_center_y R sy hole) hole)
    in fst (add_rectangle msp R sx sy)
         = msp @ Add_lwpolyline [(sx, sy), (width R + sx, sy), (width R + sx, height R + sy),
                                 (sx, height R + sy)] True
               # concat (map drawn (enumerate 0 (holes R)))
     \<and> (\<forall>i radius l a.
          (let cx = sx + offset_from_side R
                    + (real i * (l * cos a + 2 * radius) + (l * cos a + 2 * radius) / 2)
                    + real i * gap;
               cy = sy + offset_from_bottom R + (l * sin a + 2 * radius) / 2;
               left = (cx - (l / 2) * cos a, cy + (l / 2) * sin a);
               right = (cx + (l / 2) * cos a, cy - (l / 2) * sin a)
           in drawn (i, Slot radius l a) = [Add_circle left radius, Add_circle right radius]
              \<and> ((fst left + fst right) / 2, (snd left + snd right) / 2) = (cx, cy))))"
  by (simp add: add_rectangle_def Let_def place_holes_concat box_def translate_def
                hole_center_x_def hole_center_y_def)

theorem slot_drawn_as_two_end_circles_witness:
  "2 \<le> length (holes \<lparr>width = 100, height = 50, thickness = 1, offset_from_side = 0,
                        offset_from_bottom = 0, holes = [Slot 5 10 0, Circle 5],
                        holes_total_width = 30\<rparr>)
   \<and> fst (add_rectangle [] \<lparr>width = 100, height = 50, thickness = 1, offset_from_side = 0,
                        offset_from_bottom = 0, holes = [Slot 5 10 0, Circle 5],
                        holes_total_width = 30\<rparr> 0 0)
       = [Add_lwpolyline [(0, 0), (100, 0), (100, 50), (0, 50)] True,
          Add_circle (5, 5) 5, Add_circle (15, 5) 5, Add_circle (85, 5) 5]"
  using slot_drawn_as_two_end_circles
          [where R = "\<lparr>width = 100, height = 50, thickness = 1, offset_from_side = 0,
                offset_from_bottom = 0, holes = [Slot 5 10 0, Circle 5],
                holes_total_width = 30\<rparr>" and msp = "[]" and sx = 0 and sy = 0]
  by (simp add: Let_def hole_center_x_def hole_center_y_def)

text \<open>
  Claim C1. Hole \<open>i\<close> should be centred at the start, plus the side offset, plus the
  widths of the holes before it, plus half its own width, plus \<open>i\<close> gaps, so that
  all gaps between neighbouring holes are equal. The code takes \<open>i\<close> times the width of
  hole \<open>i\<close> itself for the widths of the holes before it. That agrees when all holes have
  one width (\<open>hole_center_x_uniform\<close>). For circles of radius \<open>5\<close>, \<open>10\<close>, \<open>5\<close> on a
  rectangle of width \<open>100\<close> the code centres them at \<open>5\<close>, \<open>60\<close>, \<open>85\<close>, with gaps of \<open>40\<close>
  and \<open>10\<close> between their edges, where the stated centres are \<open>5\<close>, \<open>50\<close>, \<open>95\<close> with two
  gaps of \<open>30\<close>.
\<close>

theorem add_rectangle_mixed_widths:
  "add_holes (Rectangle_init 100 50 0 0 1) [Circle 5, Circle 10, Circle 5]
     = (\<lparr>width = 100, height = 50, thickness = 1, offset_from_side = 0, offset_from_bottom = 0,
         holes = [Circle 5, Circle 10, Circle 5], holes_total_width = 40\<rparr>, None)
   \<and> add_rectangle [] \<lparr>width = 100, height = 50, thickness = 1, offset_from_side = 0,
         offset_from_bottom = 0, holes = [Circle 5, Circle 10, Circle 5],
         holes_total_width = 40\<rparr> 0 0
     = ([Add_lwpolyline [(0, 0), (100, 0), (100, 50), (0, 50)] True,
         Add_circle (5, 5) 5, Add_circle (60, 10) 10, Add_circle (85, 5) 5], None)
   \<and> map (spec_hole_center_x \<lparr>width = 100, height = 50, thickness = 1, offset_from_side = 0,
         offset_from_bottom = 0, holes = [Circle 5, Circle 10, Circle 5],
         holes_total_width = 40\<rparr> 0) [0, 1, 2] = [5, 50, 95]"
  by (simp add: Rectangle_init_def Let_def add_rectangle_def box_def translate_def
                hole_center_x_def hole_center_y_def spec_hole_center_x_def)

end
